theory Spec2Isabelle
  imports Main "HOL-Library.Sublist"
begin

section \<open>Entity model\<close>

text \<open>
  Modelled from the spec: the declarations of \<^verbatim>\<open>JobType\<close>, \<^verbatim>\<open>CommentType\<close>,
  \<^verbatim>\<open>ReplyType\<close> and \<^verbatim>\<open>UserType\<close> live in the module \<^verbatim>\<open>@/types\<close>, which is not among
  the sources. The records below carry the fields that section 3 of the specification
  lists and that \<^verbatim>\<open>jobService\<close> and \<^verbatim>\<open>JobProvider\<close> read or write. A field the code
  guards with \<^verbatim>\<open>?.\<close> or \<^verbatim>\<open>|| []\<close> is optional: \<open>None\<close> is JavaScript's \<^verbatim>\<open>undefined\<close>.
  Numbers are integers here; the code below never computes with a budget, and a
  timestamp is the millisecond count that \<^verbatim>\<open>Date.now()\<close> returns.
\<close>

datatype job_status = Open | InProgress | Completed

record reply =
  reply_id :: string
  reply_userId :: string
  reply_commentId :: string
  reply_text :: string
  reply_content :: "string option"
  reply_timestamp :: nat
  reply_userName :: string
  reply_userPhoto :: string

record comment =
  comment_id :: string
  comment_userId :: string
  comment_jobId :: string
  comment_text :: string
  comment_content :: "string option"
  comment_timestamp :: nat
  comment_userName :: string
  comment_userPhoto :: string
  replies :: "reply list option"

record job =
  job_id :: string
  title :: string
  description :: string
  category :: string
  budget :: int
  status :: job_status
  job_userId :: string
  job_timestamp :: nat
  comments :: "comment list option"

text \<open>\<^verbatim>\<open>Partial<JobType>\<close>, the argument of \<^verbatim>\<open>createJob\<close> and \<^verbatim>\<open>updateJob\<close>.\<close>

record job_data =
  jd_title :: "string option"
  jd_description :: "string option"
  jd_category :: "string option"
  jd_budget :: "int option"
  jd_status :: "job_status option"

record user =
  user_id :: string
  user_name :: string
  user_photoURL :: "string option"

text \<open>The payload of the session token, as \<^verbatim>\<open>JSON.parse(atob(token.split('.')[1]))\<close> yields it.\<close>

record token_payload =
  tp_userId :: "string option"
  tp_id :: "string option"
  tp_name :: "string option"
  tp_photoURL :: "string option"

section \<open>The environment: notifications, local storage, the network\<close>

datatype variant = Default | Destructive

text \<open>
  A call of \<^verbatim>\<open>toast({variant, title, description})\<close>. The Spanish texts are written
  without their accents.
\<close>

record toast =
  variant :: variant
  toast_title :: string
  toast_description :: string

datatype http_method = GET | POST | PUT | DELETE

text \<open>A request handed to axios: method, path below \<^verbatim>\<open>API_URL\<close>, Authorization header.\<close>

datatype request = Request http_method string string

record axios_error =
  ax_message :: string
  ax_resp_message :: "string option"
  ax_resp_details :: "string option"

text \<open>
  What a \<^verbatim>\<open>throw\<close> carries: an error raised by axios, or a plain \<^verbatim>\<open>new Error(msg)\<close>.
\<close>

datatype js_error = AxiosError axios_error | Error string

text \<open>
  The body of a response, \<^verbatim>\<open>response.data\<close>: \<^verbatim>\<open>{success: true, <payload>}\<close> or
  \<^verbatim>\<open>{success: false, message?}\<close>; and what awaiting an axios call gives: a thrown error
  or a response.
\<close>

datatype 'p body = Success 'p | NoSuccess "string option"

datatype 'p axios = Throws axios_error | Responds "'p body"

text \<open>
  Everything the two modules read and write: the six \<^verbatim>\<open>useState\<close> cells of
  \<^verbatim>\<open>JobProvider\<close>, the notifications shown so far, the two \<^verbatim>\<open>localStorage\<close> slots
  (with \<open>quotaExceeded\<close>: \<^verbatim>\<open>setItem\<close> throws), and the requests issued so far.
\<close>

record world =
  jobs :: "job list"
  userJobs :: "job list"
  filteredJobs :: "job list"
  popularJobs :: "job list"
  savedJobs :: "job list"
  loading :: bool
  toasts :: "toast list"
  cachedJobs :: "job list option"
  token :: "string option"
  quotaExceeded :: bool
  requests :: "request list"

definition toast :: "variant \<Rightarrow> string \<Rightarrow> string \<Rightarrow> world \<Rightarrow> world" where
  "toast v t d w = w\<lparr>toasts := toasts w @ [\<lparr>variant = v, toast_title = t, toast_description = d\<rparr>]\<rparr>"

definition send :: "http_method \<Rightarrow> string \<Rightarrow> string \<Rightarrow> world \<Rightarrow> world" where
  "send m path auth w = w\<lparr>requests := requests w @ [Request m path auth]\<rparr>"

text \<open>\<^verbatim>\<open>token ? `Bearer ${token}` : ''\<close> and \<^verbatim>\<open>`Bearer ${localStorage.getItem('token')}`\<close>.\<close>

definition bearerOrEmpty :: "string option \<Rightarrow> string" where
  "bearerOrEmpty t = (case t of None \<Rightarrow> [] | Some s \<Rightarrow> if s = [] then [] else ''Bearer '' @ s)"

definition bearer :: "string option \<Rightarrow> string" where
  "bearer t = ''Bearer '' @ (case t of None \<Rightarrow> ''null'' | Some s \<Rightarrow> s)"

text \<open>\<^verbatim>\<open>a || b\<close> on strings: the empty string and \<^verbatim>\<open>undefined\<close> are falsy.\<close>

definition falsy :: "string option \<Rightarrow> bool" where
  "falsy a = (case a of None \<Rightarrow> True | Some s \<Rightarrow> s = [])"

definition orElse :: "string option \<Rightarrow> string \<Rightarrow> string" where
  "orElse a b = (case a of None \<Rightarrow> b | Some s \<Rightarrow> if s = [] then b else s)"

text \<open>
  \<^verbatim>\<open>try { localStorage.setItem('cachedJobs', JSON.stringify(js)) } catch (e) { log }\<close>:
  a failed write is swallowed and leaves the slot as it was.
\<close>

definition setCachedJobs :: "job list \<Rightarrow> world \<Rightarrow> world" where
  "setCachedJobs js w = (if quotaExceeded w then w else w\<lparr>cachedJobs := Some js\<rparr>)"

text \<open>\<^verbatim>\<open>axios.isAxiosError(error) ? error.message : 'Error desconocido'\<close>.\<close>

definition errorText :: "js_error \<Rightarrow> string" where
  "errorText e = (case e of AxiosError a \<Rightarrow> ax_message a | Error m \<Rightarrow> ''Error desconocido'')"

section \<open>The remote gateway: jobService\<close>

text \<open>
  Each function takes the world and the outcome of the request it may issue, and returns
  what the promise settles to (\<open>Inl\<close>: rejected with that error) with the new world.
\<close>

text \<open>\<^verbatim>\<open>{...job, comments: job.comments || []}\<close>; an array is truthy, also when empty.\<close>

definition withComments :: "job \<Rightarrow> job" where
  "withComments j = j\<lparr>comments := Some (case comments j of None \<Rightarrow> [] | Some cs \<Rightarrow> cs)\<rparr>"

text \<open>\<^verbatim>\<open>const cachedJobs = localStorage.getItem('cachedJobs'); if (cachedJobs) return JSON.parse(cachedJobs); return []\<close>.\<close>

definition cachedOrEmpty :: "world \<Rightarrow> job list" where
  "cachedOrEmpty w = (case cachedJobs w of Some js \<Rightarrow> js | None \<Rightarrow> [])"

definition jobService_getAllJobs :: "world \<Rightarrow> job list axios \<Rightarrow> (js_error + job list) \<times> world" where
  "jobService_getAllJobs w net =
     (let w1 = send GET ''/jobs'' (bearerOrEmpty (token w)) w in
      case net of
        Responds (Success js) \<Rightarrow>
          (let jobsWithComments = map withComments js
           in (Inr jobsWithComments, setCachedJobs jobsWithComments w1))
      | Responds (NoSuccess m) \<Rightarrow> (Inr (cachedOrEmpty w1), w1)
      | Throws e \<Rightarrow>
          (let w2 = toast Destructive ''Error''
                      (''Error al obtener las propuestas: '' @ errorText (AxiosError e)) w1
           in (Inr (cachedOrEmpty w2), w2)))"

definition jobService_getJobsByUser ::
  "world \<Rightarrow> string \<Rightarrow> job list axios \<Rightarrow> (js_error + job list) \<times> world" where
  "jobService_getJobsByUser w userId net =
     (case jobService_getAllJobs w net of
        (Inr allJobs, w1) \<Rightarrow> (Inr (filter (\<lambda>j. job_userId j = userId) allJobs), w1)
      | (Inl e, w1) \<Rightarrow>
          (Inl e, toast Destructive ''Error''
                    (''Error al obtener las propuestas del usuario: '' @ errorText e) w1))"

text \<open>
  The \<^verbatim>\<open>try\<close> block of \<^verbatim>\<open>jobService.createJob\<close>: the guard on the four required fields
  comes before \<^verbatim>\<open>axios.post\<close>.
\<close>

definition createJob_try :: "world \<Rightarrow> job_data \<Rightarrow> job axios \<Rightarrow> (js_error + job) \<times> world" where
  "createJob_try w jobData net =
     (if falsy (jd_title jobData) \<or> falsy (jd_description jobData)
         \<or> falsy (jd_category jobData) \<or> jd_budget jobData = None
      then (let errorMsg = ''Datos incompletos para crear la propuesta''
            in (Inl (Error errorMsg), toast Destructive ''Error'' errorMsg w))
      else (let w1 = send POST ''/jobs'' (bearer (token w)) w in
            case net of
              Throws e \<Rightarrow> (Inl (AxiosError e), w1)
            | Responds (Success j) \<Rightarrow>
                (Inr j, toast Default ''Exito'' ''Propuesta creada correctamente'' w1)
            | Responds (NoSuccess m) \<Rightarrow>
                (let errorMsg = orElse m ''Error al crear la propuesta''
                 in (Inl (Error errorMsg), toast Destructive ''Error'' errorMsg w1))))"

text \<open>The message its \<^verbatim>\<open>catch\<close> block builds before it rethrows.\<close>

definition createErrorMessage :: "js_error \<Rightarrow> string" where
  "createErrorMessage e = ''Error al crear la propuesta'' @
     (case e of
        Error m \<Rightarrow> []
      | AxiosError a \<Rightarrow>
          (if \<not> falsy (ax_resp_details a)
           then '': '' @ orElse (ax_resp_message a) (orElse (ax_resp_details a) [])
           else if \<not> falsy (ax_resp_message a) then '': '' @ orElse (ax_resp_message a) []
           else '': '' @ ax_message a))"

definition jobService_createJob ::
  "world \<Rightarrow> job_data \<Rightarrow> job axios \<Rightarrow> (js_error + job) \<times> world" where
  "jobService_createJob w jobData net =
     (case createJob_try w jobData net of
        (Inr j, w1) \<Rightarrow> (Inr j, w1)
      | (Inl e, w1) \<Rightarrow> (Inl e, toast Destructive ''Error'' (createErrorMessage e) w1))"

definition jobService_updateJob ::
  "world \<Rightarrow> string \<Rightarrow> job_data \<Rightarrow> job axios \<Rightarrow> (js_error + job option) \<times> world" where
  "jobService_updateJob w ident jobData net =
     (let w1 = send PUT (''/jobs/'' @ ident) (bearer (token w)) w in
      case net of
        Responds (Success j) \<Rightarrow>
          (Inr (Some j), toast Default ''Exito'' ''Propuesta actualizada correctamente'' w1)
      | Responds (NoSuccess m) \<Rightarrow>
          (Inr None, toast Destructive ''Error'' (orElse m ''Error al actualizar la propuesta'') w1)
      | Throws e \<Rightarrow>
          (Inl (AxiosError e),
           toast Destructive ''Error''
             (''Error al actualizar la propuesta: '' @ errorText (AxiosError e)) w1))"

definition jobService_deleteJob ::
  "world \<Rightarrow> string \<Rightarrow> unit axios \<Rightarrow> (js_error + bool) \<times> world" where
  "jobService_deleteJob w ident net =
     (let w1 = send DELETE (''/jobs/'' @ ident) (bearer (token w)) w in
      case net of
        Responds (Success u) \<Rightarrow>
          (Inr True, toast Default ''Exito'' ''Propuesta eliminada correctamente'' w1)
      | Responds (NoSuccess m) \<Rightarrow>
          (Inr False, toast Destructive ''Error'' (orElse m ''Error al eliminar la propuesta'') w1)
      | Throws e \<Rightarrow>
          (Inl (AxiosError e),
           toast Destructive ''Error''
             (''Error al eliminar la propuesta: '' @ errorText (AxiosError e)) w1))"

text \<open>
  \<^verbatim>\<open>if (token) userInfo = JSON.parse(atob(token.split('.')[1]))\<close> inside its own
  \<^verbatim>\<open>try\<close>: \<open>decode\<close> is the decoding, \<open>None\<close> where it throws, and \<open>userInfo\<close> stays
  \<^verbatim>\<open>undefined\<close> then. \<open>field\<close> is \<^verbatim>\<open>userInfo?.f\<close>.
\<close>

definition userInfoOf :: "(string \<Rightarrow> token_payload option) \<Rightarrow> string option \<Rightarrow> token_payload option" where
  "userInfoOf decode t = (case t of None \<Rightarrow> None | Some s \<Rightarrow> if s = [] then None else decode s)"

definition field :: "token_payload option \<Rightarrow> (token_payload \<Rightarrow> string option) \<Rightarrow> string option" where
  "field userInfo f = (case userInfo of None \<Rightarrow> None | Some p \<Rightarrow> f p)"

text \<open>
  \<^verbatim>\<open>job.id === jobId ? {...job, comments: [...(job.comments || []), c]} : job\<close>, the step
  that the gateway maps over the cached jobs and the provider over the canonical list.
\<close>

definition appendComment :: "string \<Rightarrow> comment \<Rightarrow> job \<Rightarrow> job" where
  "appendComment jobId c j =
     (if job_id j = jobId
      then j\<lparr>comments := Some ((case comments j of None \<Rightarrow> [] | Some cs \<Rightarrow> cs) @ [c])\<rparr>
      else j)"

text \<open>The \<^verbatim>\<open>try\<close> block of \<^verbatim>\<open>jobService.addComment\<close>, once the request has settled.\<close>

definition addComment_try :: "comment axios \<Rightarrow> js_error + comment" where
  "addComment_try net =
     (case net of
        Throws e \<Rightarrow> Inl (AxiosError e)
      | Responds (Success c) \<Rightarrow> Inr c
      | Responds (NoSuccess m) \<Rightarrow> Inl (Error ''Comentario no pudo ser guardado en el servidor''))"

text \<open>
  The comment its \<^verbatim>\<open>catch\<close> block fabricates; \<open>uuid\<close> is what \<^verbatim>\<open>uuidv4()\<close> returned and
  \<open>now\<close> what \<^verbatim>\<open>Date.now()\<close> returned.
\<close>

definition localComment :: "token_payload option \<Rightarrow> string \<Rightarrow> string \<Rightarrow> string \<Rightarrow> nat \<Rightarrow> comment" where
  "localComment userInfo jobId txt uuid now =
     \<lparr>comment_id = uuid,
      comment_userId = orElse (field userInfo tp_userId) (orElse (field userInfo tp_id) ''unknown''),
      comment_jobId = jobId,
      comment_text = txt,
      comment_content = Some txt,
      comment_timestamp = now,
      comment_userName = orElse (field userInfo tp_name) ''Usuario'',
      comment_userPhoto = orElse (field userInfo tp_photoURL) [],
      replies = Some []\<rparr>"

definition cacheComment :: "string \<Rightarrow> comment \<Rightarrow> world \<Rightarrow> world" where
  "cacheComment jobId c w =
     (case cachedJobs w of
        None \<Rightarrow> w
      | Some js \<Rightarrow> setCachedJobs (map (appendComment jobId c) js) w)"

definition jobService_addComment ::
  "world \<Rightarrow> string \<Rightarrow> string \<Rightarrow> comment axios \<Rightarrow> (string \<Rightarrow> token_payload option) \<Rightarrow> string \<Rightarrow> nat
     \<Rightarrow> (js_error + comment) \<times> world" where
  "jobService_addComment w jobId txt net decode uuid now =
     (let w1 = send POST (''/jobs/'' @ jobId @ ''/comments'') (bearerOrEmpty (token w)) w in
      case addComment_try net of
        Inr c \<Rightarrow> (Inr c, w1)
      | Inl e \<Rightarrow>
          (let newComment = localComment (userInfoOf decode (token w1)) jobId txt uuid now
           in (Inr newComment, cacheComment jobId newComment w1)))"

definition addReply_try :: "reply axios \<Rightarrow> js_error + reply" where
  "addReply_try net =
     (case net of
        Throws e \<Rightarrow> Inl (AxiosError e)
      | Responds (Success r) \<Rightarrow> Inr r
      | Responds (NoSuccess m) \<Rightarrow> Inl (Error ''Respuesta no pudo ser guardada en el servidor''))"

definition localReply :: "token_payload option \<Rightarrow> string \<Rightarrow> string \<Rightarrow> string \<Rightarrow> nat \<Rightarrow> reply" where
  "localReply userInfo commentId txt uuid now =
     \<lparr>reply_id = uuid,
      reply_userId = orElse (field userInfo tp_userId) (orElse (field userInfo tp_id) ''unknown''),
      reply_commentId = commentId,
      reply_text = txt,
      reply_content = Some txt,
      reply_timestamp = now,
      reply_userName = orElse (field userInfo tp_name) ''Usuario'',
      reply_userPhoto = orElse (field userInfo tp_photoURL) []\<rparr>"

definition jobService_addReply ::
  "world \<Rightarrow> string \<Rightarrow> string \<Rightarrow> reply axios \<Rightarrow> (string \<Rightarrow> token_payload option) \<Rightarrow> string \<Rightarrow> nat
     \<Rightarrow> (js_error + reply) \<times> world" where
  "jobService_addReply w commentId txt net decode uuid now =
     (let w1 = send POST (''/comments/'' @ commentId @ ''/replies'') (bearerOrEmpty (token w)) w in
      case addReply_try net of
        Inr r \<Rightarrow> (Inr r, w1)
      | Inl e \<Rightarrow> (Inr (localReply (userInfoOf decode (token w1)) commentId txt uuid now), w1))"

text \<open>\<^verbatim>\<open>return response.data.success\<close>; an error of axios is logged and rethrown.\<close>

definition jobService_deleteComment ::
  "world \<Rightarrow> string \<Rightarrow> unit axios \<Rightarrow> (js_error + bool) \<times> world" where
  "jobService_deleteComment w commentId net =
     (let w1 = send DELETE (''/comments/'' @ commentId) (bearer (token w)) w in
      case net of
        Responds (Success u) \<Rightarrow> (Inr True, w1)
      | Responds (NoSuccess m) \<Rightarrow> (Inr False, w1)
      | Throws e \<Rightarrow> (Inl (AxiosError e), w1))"

section \<open>The optimistic mutation engine: JobProvider\<close>

text \<open>How a template literal renders a number: \<^verbatim>\<open>`${Date.now()}`\<close> in decimal digits.\<close>

definition digit :: "nat \<Rightarrow> char" where
  "digit d = ''0123456789'' ! d"

fun decimal :: "nat \<Rightarrow> string" where
  "decimal n = (if n < 10 then [digit n] else decimal (n div 10) @ [digit (n mod 10)])"

declare decimal.simps [simp del]

text \<open>
  \<^verbatim>\<open>refreshJobs\<close>. \<open>netAll\<close> answers the request of \<^verbatim>\<open>jobService.getAllJobs()\<close>, \<open>netUser\<close>
  the one that \<^verbatim>\<open>jobService.getJobsByUser\<close> issues when a user is signed in.
\<close>

definition refreshFailed :: "world \<Rightarrow> world" where
  "refreshFailed w =
     (toast Destructive ''Error'' ''Error al cargar los trabajos.'' w)
       \<lparr>jobs := [], filteredJobs := [], popularJobs := []\<rparr>"

definition refreshJobs :: "world \<Rightarrow> user option \<Rightarrow> job list axios \<Rightarrow> job list axios \<Rightarrow> world" where
  "refreshJobs w currentUser netAll netUser =
     (let w0 = w\<lparr>loading := True\<rparr>;
          w' =
            (case jobService_getAllJobs w0 netAll of
               (Inl e, w1) \<Rightarrow> refreshFailed w1
             | (Inr allJobs, w1) \<Rightarrow>
                 (let w2 = w1\<lparr>jobs := allJobs, filteredJobs := allJobs\<rparr> in
                  case currentUser of
                    None \<Rightarrow> w2\<lparr>popularJobs := take 3 allJobs\<rparr>
                  | Some u \<Rightarrow>
                      (case jobService_getJobsByUser w2 (user_id u) netUser of
                         (Inl e, w3) \<Rightarrow> refreshFailed w3
                       | (Inr userJobsData, w3) \<Rightarrow>
                           w3\<lparr>userJobs := userJobsData, savedJobs := [],
                              popularJobs := take 3 allJobs\<rparr>)))
      in w'\<lparr>loading := False\<rparr>)"

definition createJob ::
  "world \<Rightarrow> user option \<Rightarrow> job_data \<Rightarrow> job axios \<Rightarrow> job list axios \<Rightarrow> job list axios
     \<Rightarrow> job option \<times> world" where
  "createJob w currentUser jobData net netAll netUser =
     (case jobService_createJob w jobData net of
        (Inr createdJob, w1) \<Rightarrow>
          (Some createdJob,
           toast Default ''Propuesta creada'' ''La propuesta se ha creado correctamente.''
             (refreshJobs w1 currentUser netAll netUser))
      | (Inl e, w1) \<Rightarrow>
          (None, toast Destructive ''Error'' ''Error al crear la propuesta.'' w1))"

text \<open>\<^verbatim>\<open>prevJobs.map(job => job.id === jobId ? updatedJob : job)\<close>.\<close>

definition replaceJob :: "string \<Rightarrow> job \<Rightarrow> job list \<Rightarrow> job list" where
  "replaceJob jobId updatedJob prevJobs =
     map (\<lambda>j. if job_id j = jobId then updatedJob else j) prevJobs"

definition updateJob ::
  "world \<Rightarrow> string \<Rightarrow> job_data \<Rightarrow> job axios \<Rightarrow> job option \<times> world" where
  "updateJob w jobId jobData net =
     (case jobService_updateJob w jobId jobData net of
        (Inr (Some updatedJob), w1) \<Rightarrow>
          (Some updatedJob,
           toast Default ''Propuesta actualizada'' ''La propuesta se ha actualizado correctamente.''
             (w1\<lparr>jobs := replaceJob jobId updatedJob (jobs w1),
                 userJobs := replaceJob jobId updatedJob (userJobs w1),
                 filteredJobs := replaceJob jobId updatedJob (filteredJobs w1)\<rparr>))
      | (Inr None, w1) \<Rightarrow> (None, w1)
      | (Inl e, w1) \<Rightarrow>
          (None, toast Destructive ''Error'' ''Error al actualizar la propuesta.'' w1))"

text \<open>\<^verbatim>\<open>prevJobs.filter(job => job.id !== jobId)\<close>.\<close>

definition removeJob :: "string \<Rightarrow> job list \<Rightarrow> job list" where
  "removeJob jobId prevJobs = filter (\<lambda>j. job_id j \<noteq> jobId) prevJobs"

definition deleteJob :: "world \<Rightarrow> string \<Rightarrow> unit axios \<Rightarrow> bool \<times> world" where
  "deleteJob w jobId net =
     (case jobService_deleteJob w jobId net of
        (Inr success, w1) \<Rightarrow>
          (if success
           then (True,
                 toast Default ''Propuesta eliminada'' ''La propuesta ha sido eliminada correctamente.''
                   (w1\<lparr>jobs := removeJob jobId (jobs w1),
                       userJobs := removeJob jobId (userJobs w1),
                       filteredJobs := removeJob jobId (filteredJobs w1)\<rparr>))
           else (False, w1))
      | (Inl e, w1) \<Rightarrow>
          (False, toast Destructive ''Error'' ''Error al eliminar la propuesta.'' w1))"

text \<open>
  \<^verbatim>\<open>addComment\<close>. The temporary comment; \<open>now\<close> and \<open>ts\<close> are the two readings of
  \<^verbatim>\<open>Date.now()\<close>, for the identifier and for the timestamp.
\<close>

definition tempComment :: "user \<Rightarrow> string \<Rightarrow> string \<Rightarrow> nat \<Rightarrow> nat \<Rightarrow> comment" where
  "tempComment u jobId txt now ts =
     \<lparr>comment_id = ''temp-'' @ decimal now,
      comment_userId = user_id u,
      comment_jobId = jobId,
      comment_text = txt,
      comment_content = None,
      comment_timestamp = ts,
      comment_userName = user_name u,
      comment_userPhoto = orElse (user_photoURL u) [],
      replies = Some []\<rparr>"

text \<open>The first \<^verbatim>\<open>setJobs\<close>, before the request is awaited.\<close>

definition addComment_optimistic :: "string \<Rightarrow> comment \<Rightarrow> world \<Rightarrow> world" where
  "addComment_optimistic jobId tmp w = w\<lparr>jobs := map (appendComment jobId tmp) (jobs w)\<rparr>"

text \<open>
  \<^verbatim>\<open>job.comments?.filter(c => c.id !== tempComment.id) || []\<close>, then the spread with
  the comment the gateway returned.
\<close>

definition reconcileComment :: "string \<Rightarrow> comment \<Rightarrow> comment \<Rightarrow> job \<Rightarrow> job" where
  "reconcileComment jobId tmp c j =
     (if job_id j = jobId
      then (let filteredComments =
                  (case comments j of
                     None \<Rightarrow> []
                   | Some cs \<Rightarrow> filter (\<lambda>x. comment_id x \<noteq> comment_id tmp) cs)
            in j\<lparr>comments := Some (filteredComments @ [c])\<rparr>)
      else j)"

text \<open>
  What follows the \<^verbatim>\<open>await\<close>: the rest of the \<^verbatim>\<open>try\<close> block when the gateway's promise
  resolved, the \<^verbatim>\<open>catch\<close> block when it rejected. \<open>rendered\<close> is the \<^verbatim>\<open>jobs\<close> the
  closure captured, which the \<^verbatim>\<open>catch\<close> block searches for its return value.
\<close>

definition addComment_settle ::
  "job list \<Rightarrow> string \<Rightarrow> comment \<Rightarrow> js_error + comment \<Rightarrow> world \<Rightarrow> comment option \<times> world" where
  "addComment_settle rendered jobId tmp outcome w =
     (case outcome of
        Inr c \<Rightarrow>
          (Some c,
           toast Default ''Comentario publicado'' ''Tu comentario ha sido publicado correctamente.''
             (w\<lparr>jobs := map (reconcileComment jobId tmp c) (jobs w)\<rparr>))
      | Inl e \<Rightarrow>
          (case find (\<lambda>j. job_id j = jobId) rendered of
             None \<Rightarrow> None
           | Some j \<Rightarrow>
               (case comments j of
                  None \<Rightarrow> None
                | Some cs \<Rightarrow> find (\<lambda>x. prefix ''temp-'' (comment_id x)) cs),
           toast Destructive ''Error''
             ''Error al publicar el comentario en el servidor, pero se muestra localmente.'' w))"

definition addComment ::
  "world \<Rightarrow> user option \<Rightarrow> string \<Rightarrow> string \<Rightarrow> nat \<Rightarrow> nat \<Rightarrow> comment axios
     \<Rightarrow> (string \<Rightarrow> token_payload option) \<Rightarrow> string \<Rightarrow> nat \<Rightarrow> comment option \<times> world" where
  "addComment w currentUser jobId txt now ts net decode uuid now' =
     (case currentUser of
        None \<Rightarrow> (None, toast Destructive ''Error'' ''Debes iniciar sesion para comentar.'' w)
      | Some u \<Rightarrow>
          (let tmp = tempComment u jobId txt now ts;
               w1 = addComment_optimistic jobId tmp w
           in case jobService_addComment w1 jobId txt net decode uuid now' of
                (outcome, w2) \<Rightarrow> addComment_settle (jobs w) jobId tmp outcome w2))"

text \<open>\<^verbatim>\<open>addReply\<close>, of the same shape one level down.\<close>

definition tempReply :: "user \<Rightarrow> string \<Rightarrow> string \<Rightarrow> nat \<Rightarrow> nat \<Rightarrow> reply" where
  "tempReply u commentId txt now ts =
     \<lparr>reply_id = ''temp-reply-'' @ decimal now,
      reply_userId = user_id u,
      reply_commentId = commentId,
      reply_text = txt,
      reply_content = Some txt,
      reply_timestamp = ts,
      reply_userName = user_name u,
      reply_userPhoto = orElse (user_photoURL u) []\<rparr>"

text \<open>
  \<^verbatim>\<open>{...job, comments: job.comments?.map(f)}\<close> on the job addressed: an absent comment
  sequence stays absent.
\<close>

definition mapComments :: "string \<Rightarrow> (comment \<Rightarrow> comment) \<Rightarrow> job \<Rightarrow> job" where
  "mapComments jobId f j =
     (if job_id j = jobId then j\<lparr>comments := map_option (map f) (comments j)\<rparr> else j)"

definition appendReply :: "string \<Rightarrow> reply \<Rightarrow> comment \<Rightarrow> comment" where
  "appendReply commentId r c =
     (if comment_id c = commentId
      then c\<lparr>replies := Some ((case replies c of None \<Rightarrow> [] | Some rs \<Rightarrow> rs) @ [r])\<rparr>
      else c)"

definition reconcileReply :: "string \<Rightarrow> reply \<Rightarrow> reply \<Rightarrow> comment \<Rightarrow> comment" where
  "reconcileReply commentId tmp r c =
     (if comment_id c = commentId
      then (let filteredReplies =
                  (case replies c of
                     None \<Rightarrow> []
                   | Some rs \<Rightarrow> filter (\<lambda>x. reply_id x \<noteq> reply_id tmp) rs)
            in c\<lparr>replies := Some (filteredReplies @ [r])\<rparr>)
      else c)"

definition addReply_optimistic :: "string \<Rightarrow> string \<Rightarrow> reply \<Rightarrow> world \<Rightarrow> world" where
  "addReply_optimistic jobId commentId tmp w =
     w\<lparr>jobs := map (mapComments jobId (appendReply commentId tmp)) (jobs w)\<rparr>"

definition addReply_settle ::
  "string \<Rightarrow> string \<Rightarrow> reply \<Rightarrow> js_error + reply \<Rightarrow> world \<Rightarrow> reply option \<times> world" where
  "addReply_settle jobId commentId tmp outcome w =
     (case outcome of
        Inr r \<Rightarrow>
          (Some r,
           toast Default ''Respuesta publicada'' ''Tu respuesta ha sido publicada correctamente.''
             (w\<lparr>jobs := map (mapComments jobId (reconcileReply commentId tmp r)) (jobs w)\<rparr>))
      | Inl e \<Rightarrow>
          (Some tmp,
           toast Destructive ''Error''
             ''Error al publicar la respuesta en el servidor, pero se muestra localmente.'' w))"

definition addReply ::
  "world \<Rightarrow> user option \<Rightarrow> string \<Rightarrow> string \<Rightarrow> string \<Rightarrow> nat \<Rightarrow> nat \<Rightarrow> reply axios
     \<Rightarrow> (string \<Rightarrow> token_payload option) \<Rightarrow> string \<Rightarrow> nat \<Rightarrow> reply option \<times> world" where
  "addReply w currentUser commentId jobId txt now ts net decode uuid now' =
     (case currentUser of
        None \<Rightarrow> (None, toast Destructive ''Error'' ''Debes iniciar sesion para responder.'' w)
      | Some u \<Rightarrow>
          (let tmp = tempReply u commentId txt now ts;
               w1 = addReply_optimistic jobId commentId tmp w
           in case jobService_addReply w1 commentId txt net decode uuid now' of
                (outcome, w2) \<Rightarrow> addReply_settle jobId commentId tmp outcome w2))"

text \<open>
  \<^verbatim>\<open>deleteComment\<close>: the value that \<^verbatim>\<open>jobService.deleteComment\<close> resolves to is not
  bound; every job is rebuilt with \<^verbatim>\<open>job.comments?.filter(comment => comment.id !== commentId)\<close>.
\<close>

definition removeComment :: "string \<Rightarrow> job \<Rightarrow> job" where
  "removeComment commentId j =
     j\<lparr>comments := map_option (filter (\<lambda>c. comment_id c \<noteq> commentId)) (comments j)\<rparr>"

definition deleteComment :: "world \<Rightarrow> string \<Rightarrow> unit axios \<Rightarrow> world" where
  "deleteComment w commentId net =
     (case jobService_deleteComment w commentId net of
        (Inr confirmed, w1) \<Rightarrow>
          toast Default ''Comentario eliminado'' ''El comentario ha sido eliminado correctamente.''
            (w1\<lparr>jobs := map (removeComment commentId) (jobs w1)\<rparr>)
      | (Inl e, w1) \<Rightarrow>
          toast Destructive ''Error'' ''Error al eliminar el comentario.'' w1)"

text \<open>The provider's initial state: every \<^verbatim>\<open>useState\<close> cell empty, nothing shown or sent.\<close>

definition initial :: "string option \<Rightarrow> job list option \<Rightarrow> bool \<Rightarrow> world" where
  "initial tok cache quota =
     \<lparr>jobs = [], userJobs = [], filteredJobs = [], popularJobs = [], savedJobs = [],
      loading = False, toasts = [], cachedJobs = cache, token = tok,
      quotaExceeded = quota, requests = []\<rparr>"

section \<open>Notions the claims are stated with\<close>


text \<open>The comment sequence of a job, read as the code reads it: \<^verbatim>\<open>job.comments || []\<close>.\<close>

definition commentsOf :: "job \<Rightarrow> comment list" where
  "commentsOf j = (case comments j of None \<Rightarrow> [] | Some cs \<Rightarrow> cs)"


text \<open>
  A job has its comment sequence when the field is there, empty or not; the in-memory
  model has it when every job of every list of the provider, and of the cached snapshot,
  has it.
\<close>

definition hasComments :: "job \<Rightarrow> bool" where
  "hasComments j = (comments j \<noteq> None)"

definition commentsPresent :: "world \<Rightarrow> bool" where
  "commentsPresent w =
     (list_all hasComments (jobs w) \<and> list_all hasComments (userJobs w)
      \<and> list_all hasComments (filteredJobs w) \<and> list_all hasComments (popularJobs w)
      \<and> (case cachedJobs w of None \<Rightarrow> True | Some js \<Rightarrow> list_all hasComments js))"




section \<open>Sample data\<close>

definition sampleJob :: "string \<Rightarrow> string \<Rightarrow> comment list option \<Rightarrow> job" where
  "sampleJob ident owner cs =
     \<lparr>job_id = ident, title = ''Logo'', description = ''Design a logo'', category = ''design'',
      budget = 100, status = Open, job_userId = owner, job_timestamp = 0, comments = cs\<rparr>"

definition sampleComment :: "string \<Rightarrow> string \<Rightarrow> string \<Rightarrow> comment" where
  "sampleComment ident jobId txt =
     \<lparr>comment_id = ident, comment_userId = ''u2'', comment_jobId = jobId, comment_text = txt,
      comment_content = None, comment_timestamp = 0, comment_userName = ''Luis'',
      comment_userPhoto = [], replies = Some []\<rparr>"

definition jobA :: job where
  "jobA = sampleJob ''A'' ''u1'' (Some [])"

definition jobB :: job where
  "jobB = sampleJob ''B'' ''u2'' (Some [])"

definition jobC :: job where
  "jobC = sampleJob ''C'' ''u1'' (Some [])"

definition jobD :: job where
  "jobD = sampleJob ''D'' ''u1'' (Some [])"

definition commentC9 :: comment where
  "commentC9 = sampleComment ''c9'' ''A'' ''hola''"

definition uuid1 :: string where
  "uuid1 = ''9b1deb4d-3b7d-4bad-9bdd-2b0d7b3dcb6d''"

definition logoData :: job_data where
  "logoData = \<lparr>jd_title = Some ''Logo'', jd_description = Some ''Design a logo'',
                jd_category = Some ''design'', jd_budget = Some 100, jd_status = None\<rparr>"

definition commentC1 :: comment where
  "commentC1 = sampleComment ''c1'' ''A'' ''buenas''"

definition jobA1 :: job where
  "jobA1 = sampleJob ''A'' ''u1'' (Some [commentC1])"

definition jobE :: job where
  "jobE = sampleJob ''E'' ''u1'' (Some [])"

definition replyR1 :: reply where
  "replyR1 =
     \<lparr>reply_id = ''r1'', reply_userId = ''u1'', reply_commentId = ''c1'', reply_text = ''gracias'',
      reply_content = None, reply_timestamp = 0, reply_userName = ''Ana'', reply_userPhoto = []\<rparr>"

definition ana :: user where
  "ana = \<lparr>user_id = ''u1'', user_name = ''Ana'', user_photoURL = None\<rparr>"

definition offline :: axios_error where
  "offline = \<lparr>ax_message = ''Network Error'', ax_resp_message = None, ax_resp_details = None\<rparr>"

definition noPayload :: "string \<Rightarrow> token_payload option" where
  "noPayload s = None"

text \<open>The provider after its first refresh has fetched the jobs \<open>js\<close>, with Ana signed in.\<close>

definition loaded :: "job list \<Rightarrow> world" where
  "loaded js =
     refreshJobs (initial None None False) (Some ana) (Responds (Success js)) (Responds (Success js))"

section \<open>Auxiliary facts\<close>

lemmas svc_defs =
  jobService_getAllJobs_def jobService_getJobsByUser_def jobService_createJob_def createJob_try_def
  jobService_updateJob_def jobService_deleteJob_def jobService_addComment_def jobService_addReply_def
  jobService_deleteComment_def addComment_try_def addReply_try_def send_def toast_def
  setCachedJobs_def cachedOrEmpty_def cacheComment_def

lemmas eng_defs =
  refreshJobs_def refreshFailed_def createJob_def updateJob_def deleteJob_def addComment_def
  addComment_optimistic_def addComment_settle_def addReply_def addReply_optimistic_def
  addReply_settle_def deleteComment_def replaceJob_def removeJob_def

lemmas sample_defs =
  loaded_def initial_def sampleJob_def sampleComment_def ana_def offline_def noPayload_def
  withComments_def jobA_def jobB_def jobC_def jobD_def commentC9_def uuid1_def logoData_def
  commentC1_def jobA1_def jobE_def replyR1_def

subsection \<open>Decimal rendering is injective\<close>

lemma decimal_not_Nil: "decimal n \<noteq> []"
  by (subst decimal.simps) simp

lemma digit_inj: "a < 10 \<Longrightarrow> b < 10 \<Longrightarrow> digit a = digit b \<Longrightarrow> a = b"
proof -
  assume a: "a < 10" and b: "b < 10" and e: "digit a = digit b"
  have A: "a \<in> {0,1,2,3,4,5,6,7,8,9}" using a by auto
  have B: "b \<in> {0,1,2,3,4,5,6,7,8,9}" using b by auto
  from A B e show "a = b" by (auto simp: digit_def)
qed

lemma digit_in: "d < 10 \<Longrightarrow> digit d \<in> set ''0123456789''"
proof -
  assume "d < 10"
  then have "d \<in> {0,1,2,3,4,5,6,7,8,9}" by auto
  then show ?thesis by (auto simp: digit_def)
qed

lemma decimal_digits: "set (decimal n) \<subseteq> set ''0123456789''"
proof (induction n rule: decimal.induct)
  case (1 n)
  show ?case
  proof (cases "n < 10")
    case True
    then show ?thesis using digit_in[of n] by (subst decimal.simps) simp
  next
    case False
    have "n mod 10 < 10" by simp
    then have "digit (n mod 10) \<in> set ''0123456789''" by (rule digit_in)
    with 1 False show ?thesis by (subst decimal.simps) simp
  qed
qed

lemma decimal_inj: "decimal m = decimal n \<Longrightarrow> m = n"
proof (induction m arbitrary: n rule: decimal.induct)
  case (1 m)
  show ?case
  proof (cases "m < 10")
    case m: True
    show ?thesis
    proof (cases "n < 10")
      case True
      with m 1(2) show ?thesis
        by (simp add: decimal.simps[of m] decimal.simps[of n] digit_inj)
    next
      case False
      with m 1(2) show ?thesis using decimal_not_Nil[of "n div 10"]
        by (simp add: decimal.simps[of m] decimal.simps[of n])
    qed
  next
    case m: False
    show ?thesis
    proof (cases "n < 10")
      case True
      with m 1(2) show ?thesis using decimal_not_Nil[of "m div 10"]
        by (simp add: decimal.simps[of m] decimal.simps[of n])
    next
      case False
      with m 1(2) have eq: "decimal (m div 10) = decimal (n div 10)"
        and d: "digit (m mod 10) = digit (n mod 10)"
        by (simp_all add: decimal.simps[of m] decimal.simps[of n])
      from 1(1)[OF m eq] have "m div 10 = n div 10" .
      moreover from d have "m mod 10 = n mod 10" by (intro digit_inj) simp_all
      ultimately show ?thesis by (metis div_mult_mod_eq)
    qed
  qed
qed

lemma decimal_hd_not_r: "decimal n \<noteq> CHR ''r'' # s"
proof
  assume "decimal n = CHR ''r'' # s"
  then have "CHR ''r'' \<in> set (decimal n)" by simp
  with decimal_digits[of n] show False by auto
qed


subsection \<open>What each mutation writes\<close>

lemma addComment_jobs:
  "jobs (snd (addComment w (Some u) jobId t now ts net decode uuid now')) =
     map (\<lambda>j. reconcileComment jobId (tempComment u jobId t now ts)
                 (case net of Responds (Success c) \<Rightarrow> c
                  | _ \<Rightarrow> localComment (userInfoOf decode (token w)) jobId t uuid now')
                 (appendComment jobId (tempComment u jobId t now ts) j)) (jobs w)"
  by (simp add: addComment_def addComment_settle_def addComment_optimistic_def svc_defs Let_def
        split: axios.splits body.splits option.splits)


lemma reconcile_append:
  "job_id j = jobId \<Longrightarrow>
   comments (reconcileComment jobId tmp c (appendComment jobId tmp j)) =
     Some (filter (\<lambda>x. comment_id x \<noteq> comment_id tmp) (commentsOf j) @ [c])"
  by (simp add: reconcileComment_def appendComment_def commentsOf_def split: option.splits)






text \<open>
  The promise of \<^verbatim>\<open>jobService.addComment\<close> never rejects, so the \<^verbatim>\<open>catch\<close> block of the
  provider's \<^verbatim>\<open>addComment\<close> is not reached through it; what that block would do is keep
  the temporary comment and show one destructive notification.
\<close>

lemma jobService_addComment_never_rejects:
  "fst (jobService_addComment w jobId t net decode uuid now) \<noteq> Inl e"
  by (simp add: svc_defs Let_def split: axios.splits body.splits)

lemma addComment_catch_block:
  "jobs (snd (addComment_settle rendered jobId tmp (Inl e) w)) = jobs w"
  "toasts (snd (addComment_settle rendered jobId tmp (Inl e) w))
     = toasts w @ [\<lparr>variant = Destructive, toast_title = ''Error'',
          toast_description =
            ''Error al publicar el comentario en el servidor, pero se muestra localmente.''\<rparr>]"
  by (simp_all add: addComment_settle_def toast_def)

text \<open>The canonical list after a comment or a reply that the server accepted.\<close>

lemma addComment_success_jobs:
  "jobs (snd (addComment w (Some u) jobId t now ts (Responds (Success c)) decode uuid now')) =
     map (\<lambda>j. if job_id j = jobId
               then j\<lparr>comments := Some (filter (\<lambda>x. comment_id x \<noteq> ''temp-'' @ decimal now)
                                          (commentsOf j) @ [c])\<rparr>
               else j) (jobs w)"
  by (auto simp: addComment_jobs reconcileComment_def appendComment_def commentsOf_def
        tempComment_def split: option.splits)







text \<open>Neither \<^verbatim>\<open>deleteJob\<close> nor \<^verbatim>\<open>updateJob\<close> ever calls \<^verbatim>\<open>setPopularJobs\<close>.\<close>

lemma popularJobs_untouched:
  "popularJobs (snd (deleteJob w jobId dnet)) = popularJobs w"
  "popularJobs (snd (updateJob w jobId d unet)) = popularJobs w"
  by (simp_all add: deleteJob_def updateJob_def svc_defs Let_def split: axios.splits body.splits)


subsection \<open>The comment sequences stay present under every mutation but an update\<close>

lemma hasComments_steps:
  "hasComments (withComments j)"
  "hasComments j \<Longrightarrow> hasComments (appendComment jobId c j)"
  "hasComments j \<Longrightarrow> hasComments (reconcileComment jobId tmp c j)"
  "hasComments j \<Longrightarrow> hasComments (mapComments jobId f j)"
  "hasComments j \<Longrightarrow> hasComments (removeComment commentId j)"
  by (auto simp: hasComments_def withComments_def appendComment_def reconcileComment_def
        mapComments_def removeComment_def)

lemma refreshJobs_present:
  "commentsPresent w \<Longrightarrow> commentsPresent (refreshJobs w cu netAll netUser)"
  by (auto simp: commentsPresent_def refreshJobs_def refreshFailed_def svc_defs Let_def
        list_all_iff take_map hasComments_steps
        split: axios.splits body.splits option.splits dest: in_set_takeD)

lemma deleteJob_present:
  "commentsPresent w \<Longrightarrow> commentsPresent (snd (deleteJob w jobId net))"
  by (auto simp: commentsPresent_def deleteJob_def removeJob_def svc_defs Let_def list_all_iff
        split: axios.splits body.splits option.splits)

lemma addComment_present:
  "commentsPresent w \<Longrightarrow>
   commentsPresent (snd (addComment w cu jobId t now ts net decode uuid now'))"
  by (auto simp: commentsPresent_def addComment_def addComment_optimistic_def
        addComment_settle_def svc_defs Let_def list_all_iff hasComments_steps
        split: axios.splits body.splits option.splits)

lemma addReply_present:
  "commentsPresent w \<Longrightarrow>
   commentsPresent (snd (addReply w cu commentId jobId t now ts net decode uuid now'))"
  by (auto simp: commentsPresent_def addReply_def addReply_optimistic_def addReply_settle_def
        svc_defs Let_def list_all_iff hasComments_steps
        split: axios.splits body.splits option.splits)

lemma deleteComment_present:
  "commentsPresent w \<Longrightarrow> commentsPresent (deleteComment w commentId net)"
  by (auto simp: commentsPresent_def deleteComment_def svc_defs Let_def list_all_iff
        hasComments_steps split: axios.splits body.splits option.splits)

lemma createJob_present:
  "commentsPresent w \<Longrightarrow> commentsPresent (snd (createJob w cu d net netAll netUser))"
proof -
  assume inv: "commentsPresent w"
  have svc: "commentsPresent (snd (jobService_createJob w d net))"
    using inv
    by (auto simp: commentsPresent_def svc_defs Let_def
          split: axios.splits body.splits option.splits)
  have shown: "\<And>v a b x. commentsPresent x \<Longrightarrow> commentsPresent (toast v a b x)"
    by (simp add: commentsPresent_def toast_def)
  show ?thesis
    by (cases "jobService_createJob w d net")
       (use svc in \<open>auto simp: createJob_def shown refreshJobs_present split: sum.splits\<close>)
qed

text \<open>An update keeps them present when the job the server answers with has its own.\<close>

lemma updateJob_present:
  "commentsPresent w \<Longrightarrow> (\<forall>j. net = Responds (Success j) \<longrightarrow> hasComments j) \<Longrightarrow>
   commentsPresent (snd (updateJob w jobId d net))"
  by (auto simp: commentsPresent_def updateJob_def replaceJob_def svc_defs Let_def list_all_iff
        split: axios.splits body.splits option.splits)

section \<open>The claims\<close>

subsection \<open>C1: the popular subset after a mutation\<close>

text \<open>
  Claim C1 says that \<^verbatim>\<open>popularJobs\<close> is the first three jobs of the canonical list after
  every mutation, and that deleting B from A, B, C, D leaves A, C, D there. The code at
  that input: the provider has fetched A, B, C, D, so \<^verbatim>\<open>popularJobs\<close> is A, B, C; the
  gateway confirms the deletion of B; the canonical list becomes A, C, D, and
  \<^verbatim>\<open>popularJobs\<close> still is A, B, C, with the deleted job in it.
\<close>

theorem deleteJob_leaves_popularJobs_stale:
  "popularJobs (loaded [jobA, jobB, jobC, jobD])
     = [jobA, jobB, jobC]
   \<and> jobs (snd (deleteJob (loaded [jobA, jobB, jobC, jobD]) ''B'' (Responds (Success ()))))
     = [jobA, jobC, jobD]
   \<and> popularJobs (snd (deleteJob (loaded [jobA, jobB, jobC, jobD]) ''B'' (Responds (Success ()))))
     = [jobA, jobB, jobC]
   \<and> popularJobs (snd (deleteJob (loaded [jobA, jobB, jobC, jobD]) ''B'' (Responds (Success ()))))
     \<noteq> take 3 (jobs (snd (deleteJob (loaded [jobA, jobB, jobC, jobD]) ''B'' (Responds (Success ())))))"
  by (simp add: eng_defs svc_defs sample_defs Let_def)

subsection \<open>C2: a comment whose submission fails\<close>

text \<open>
  Claim C2 says that when the user is offline and the request throws, the temporary
  comment stays in the job's comments and exactly one failure notification is shown. The
  code at that input: Ana comments \<^verbatim>\<open>hola\<close> on job A at the clock reading 1700 while the
  request throws. \<^verbatim>\<open>jobService.addComment\<close> catches the error and resolves with a comment
  it fabricates, so the provider runs the rest of its \<^verbatim>\<open>try\<close> block: the job's comments
  are the fabricated one alone, under its uuid, the identifier \<^verbatim>\<open>temp-1700\<close> is gone, and
  the one notification shown is the notice of a successful publication; no destructive
  notification is shown.
\<close>

theorem offline_comment_is_replaced:
  "map (map comment_id \<circ> commentsOf) (jobs (snd (addComment (loaded [jobA]) (Some ana) ''A'' ''hola'' 1700 1700
                     (Throws offline) noPayload uuid1 1701)))
     = [[uuid1]]
   \<and> map (map comment_text \<circ> commentsOf) (jobs (snd (addComment (loaded [jobA]) (Some ana) ''A'' ''hola'' 1700 1700
                     (Throws offline) noPayload uuid1 1701)))
     = [[''hola'']]
   \<and> ''temp-1700'' \<notin> set (concat (map (map comment_id \<circ> commentsOf) (jobs (snd (addComment (loaded [jobA]) (Some ana) ''A'' ''hola'' 1700 1700
                     (Throws offline) noPayload uuid1 1701)))))
   \<and> toasts (snd (addComment (loaded [jobA]) (Some ana) ''A'' ''hola'' 1700 1700
                     (Throws offline) noPayload uuid1 1701))
     = [\<lparr>variant = Default, toast_title = ''Comentario publicado'',
         toast_description = ''Tu comentario ha sido publicado correctamente.''\<rparr>]
   \<and> filter (\<lambda>n. variant n = Destructive) (toasts (snd (addComment (loaded [jobA]) (Some ana) ''A'' ''hola'' 1700 1700
                     (Throws offline) noPayload uuid1 1701))) = []"
  by (simp add: eng_defs svc_defs sample_defs Let_def commentsOf_def reconcileComment_def
        appendComment_def tempComment_def localComment_def)

subsection \<open>C3: the derived views after a mutation\<close>




subsection \<open>C4: the comment sequence of a job is never absent\<close>

text \<open>
  Claim C4 says that no job of the in-memory model is ever without its comment
  sequence, also when the server's response omits it. The code at one input: the
  provider has fetched job A, sent without comments and given the empty sequence by
  \<^verbatim>\<open>jobService.getAllJobs\<close>, so that every job of the model has its comment sequence; the
  job is then updated and the server's answer again carries no comments. \<^verbatim>\<open>updateJob\<close>
  puts the answer into the canonical list as it came: the job's comment sequence is
  absent.
\<close>

theorem updateJob_drops_comments:
  "commentsPresent (loaded [sampleJob ''A'' ''u1'' None])
   \<and> map comments (jobs (loaded [sampleJob ''A'' ''u1'' None])) = [Some []]
   \<and> map comments
       (jobs (snd (updateJob (loaded [sampleJob ''A'' ''u1'' None]) ''A''
                \<lparr>jd_title = None, jd_description = None, jd_category = None,
                 jd_budget = None, jd_status = Some Completed\<rparr>
                (Responds (Success ((sampleJob ''A'' ''u1'' None)\<lparr>status := Completed\<rparr>))))))
     = [None]
   \<and> \<not> commentsPresent
         (snd (updateJob (loaded [sampleJob ''A'' ''u1'' None]) ''A''
                \<lparr>jd_title = None, jd_description = None, jd_category = None,
                 jd_budget = None, jd_status = Some Completed\<rparr>
                (Responds (Success ((sampleJob ''A'' ''u1'' None)\<lparr>status := Completed\<rparr>)))))"
  by (simp add: eng_defs svc_defs sample_defs Let_def commentsPresent_def hasComments_def)

subsection \<open>C5: a comment the server accepted\<close>

text \<open>
  Claim C5 says that the comment carrying the server's identifier has the text that was
  submitted. The code at one input: Ana submits \<^verbatim>\<open>hola\<close> followed by two blanks on job A,
  and the server answers with success and the comment c9, whose text it has trimmed to
  \<^verbatim>\<open>hola\<close>. The job ends with the one comment c9, and its text is the server's, not the
  text submitted.
\<close>

theorem server_text_is_kept:
  "map (map comment_id \<circ> commentsOf) (jobs (snd (addComment (loaded [jobA]) (Some ana) ''A'' ''hola  '' 1700 1700
                     (Responds (Success commentC9)) noPayload uuid1 1701)))
     = [[''c9'']]
   \<and> map (map comment_text \<circ> commentsOf) (jobs (snd (addComment (loaded [jobA]) (Some ana) ''A'' ''hola  '' 1700 1700
                     (Responds (Success commentC9)) noPayload uuid1 1701)))
     = [[''hola'']]
   \<and> map (map comment_text \<circ> commentsOf) (jobs (snd (addComment (loaded [jobA]) (Some ana) ''A'' ''hola  '' 1700 1700
                     (Responds (Success commentC9)) noPayload uuid1 1701)))
     \<noteq> [[''hola  '']]"
  by (simp add: eng_defs svc_defs sample_defs Let_def commentsOf_def reconcileComment_def
        appendComment_def tempComment_def)

text \<open>
  Claim C5 as amended. When the request of \<^verbatim>\<open>addComment\<close> is answered with success and the
  comment \<open>c\<close>, the call returns \<open>c\<close>, and every job with the identifier addressed ends with
  this comment sequence: the comments it had, without those carrying the temporary
  identifier, followed by \<open>c\<close> as the server sent it. So the sequence holds no comment with
  the temporary identifier when the identifier of \<open>c\<close> has not the prefix \<^verbatim>\<open>temp-\<close>, and
  the comments in it carrying the identifier of \<open>c\<close> are \<open>c\<close> alone when no comment of the
  job carried that identifier before. The text of that comment is the text the server
  sent; the code does not compare it with the text submitted.
\<close>

theorem addComment_success_reconciled:
  assumes "i < length (jobs w)" and "job_id (jobs w ! i) = jobId"
  shows
    "fst (addComment w (Some u) jobId t now ts (Responds (Success c)) decode uuid now') = Some c
     \<and> comments (jobs (snd (addComment w (Some u) jobId t now ts (Responds (Success c))
                              decode uuid now')) ! i)
       = Some (filter (\<lambda>x. comment_id x \<noteq> ''temp-'' @ decimal now) (commentsOf (jobs w ! i)) @ [c])
     \<and> (\<not> prefix ''temp-'' (comment_id c) \<longrightarrow>
          filter (\<lambda>x. comment_id x = ''temp-'' @ decimal now)
            (commentsOf (jobs (snd (addComment w (Some u) jobId t now ts (Responds (Success c))
                                      decode uuid now')) ! i))
          = [])
     \<and> ((\<forall>x \<in> set (commentsOf (jobs w ! i)). comment_id x \<noteq> comment_id c) \<longrightarrow>
          filter (\<lambda>x. comment_id x = comment_id c)
            (commentsOf (jobs (snd (addComment w (Some u) jobId t now ts (Responds (Success c))
                                      decode uuid now')) ! i))
          = [c])"
proof -
  let ?w' = "snd (addComment w (Some u) jobId t now ts (Responds (Success c)) decode uuid now')"
  let ?old = "filter (\<lambda>x. comment_id x \<noteq> ''temp-'' @ decimal now) (commentsOf (jobs w ! i))"
  have ret: "fst (addComment w (Some u) jobId t now ts (Responds (Success c)) decode uuid now')
               = Some c"
    by (simp add: addComment_def addComment_settle_def svc_defs Let_def)
  have cs: "comments (jobs ?w' ! i) = Some (?old @ [c])"
    using assms by (simp add: addComment_success_jobs)
  then have seq: "commentsOf (jobs ?w' ! i) = ?old @ [c]"
    by (simp add: commentsOf_def)
  have zero: "\<not> prefix ''temp-'' (comment_id c) \<Longrightarrow>
                filter (\<lambda>x. comment_id x = ''temp-'' @ decimal now) (commentsOf (jobs ?w' ! i)) = []"
    unfolding seq by (auto simp: filter_empty_conv)
  have one: "\<forall>x \<in> set (commentsOf (jobs w ! i)). comment_id x \<noteq> comment_id c \<Longrightarrow>
               filter (\<lambda>x. comment_id x = comment_id c) (commentsOf (jobs ?w' ! i)) = [c]"
  proof -
    assume fresh: "\<forall>x \<in> set (commentsOf (jobs w ! i)). comment_id x \<noteq> comment_id c"
    then have "filter (\<lambda>x. comment_id x = comment_id c) ?old = []"
      by (auto simp: filter_empty_conv)
    then show ?thesis unfolding seq by simp
  qed
  from ret cs zero one show ?thesis by blast
qed

text \<open>
  At work: job A holds the comment c1 and stands beside job B; the server answers Ana's
  submission with the comment c9.
\<close>

theorem addComment_success_reconciled_witness:
  "0 < length (jobs (loaded [jobA1, jobB])) \<and> job_id (jobs (loaded [jobA1, jobB]) ! 0) = ''A''
   \<and> \<not> prefix ''temp-'' (comment_id commentC9)
   \<and> map comment_id (commentsOf (jobs (loaded [jobA1, jobB]) ! 0)) = [''c1'']
   \<and> comment_id commentC9 = ''c9''
   \<and> fst (addComment (loaded [jobA1, jobB]) (Some ana) ''A'' ''hola  '' 1700 1700
                     (Responds (Success commentC9)) noPayload uuid1 1701) = Some commentC9
   \<and> commentsOf (jobs (snd (addComment (loaded [jobA1, jobB]) (Some ana) ''A'' ''hola  '' 1700 1700
                     (Responds (Success commentC9)) noPayload uuid1 1701)) ! 0) = [commentC1, commentC9]
   \<and> filter (\<lambda>x. comment_id x = ''temp-'' @ decimal 1700) (commentsOf (jobs (snd (addComment (loaded [jobA1, jobB]) (Some ana) ''A'' ''hola  '' 1700 1700
                     (Responds (Success commentC9)) noPayload uuid1 1701)) ! 0)) = []
   \<and> filter (\<lambda>x. comment_id x = ''c9'') (commentsOf (jobs (snd (addComment (loaded [jobA1, jobB]) (Some ana) ''A'' ''hola  '' 1700 1700
                     (Responds (Success commentC9)) noPayload uuid1 1701)) ! 0)) = [commentC9]"
  using addComment_success_reconciled
    [of 0 "loaded [jobA1, jobB]" "''A''" ana "''hola  ''" 1700 1700 commentC9 noPayload uuid1 1701]
  by (simp add: eng_defs svc_defs sample_defs Let_def commentsOf_def)

subsection \<open>C6: a comment is deleted only once the server confirmed\<close>

text \<open>
  Claim C6 says that the canonical list is unchanged when the gateway does not confirm
  the deletion of a comment. The code at one input: job A holds the comment c1, and the
  server answers the request to delete c1 without success, so that
  \<^verbatim>\<open>jobService.deleteComment\<close> resolves to \<^verbatim>\<open>false\<close>. \<^verbatim>\<open>deleteComment\<close> does not look at that
  value: c1 is removed from the job and the notice of a successful deletion is shown.
\<close>

theorem deleteComment_ignores_confirmation:
  "map (map comment_id \<circ> commentsOf) (jobs (loaded [sampleJob ''A'' ''u1'' (Some [sampleComment ''c1'' ''A'' ''hola''])])) = [[''c1'']]
   \<and> fst (jobService_deleteComment (loaded [sampleJob ''A'' ''u1'' (Some [sampleComment ''c1'' ''A'' ''hola''])]) ''c1'' (Responds (NoSuccess None))) = Inr False
   \<and> map (map comment_id \<circ> commentsOf)
       (jobs (deleteComment (loaded [sampleJob ''A'' ''u1'' (Some [sampleComment ''c1'' ''A'' ''hola''])]) ''c1'' (Responds (NoSuccess None)))) = [[]]
   \<and> map variant (toasts (deleteComment (loaded [sampleJob ''A'' ''u1'' (Some [sampleComment ''c1'' ''A'' ''hola''])]) ''c1'' (Responds (NoSuccess None)))) = [Default]"
  by (simp add: eng_defs svc_defs sample_defs Let_def commentsOf_def removeComment_def)

subsection \<open>C7: createJob validates before it sends\<close>

text \<open>
  Claim C7. When the title, the description or the category of the data handed to
  \<^verbatim>\<open>jobService.createJob\<close> is missing (absent or empty, which is what \<^verbatim>\<open>!field\<close> tests), or
  the budget is undefined, the call rejects with the error
  \<^verbatim>\<open>Datos incompletos para crear la propuesta\<close> and the list of requests issued is what it
  was, for the gateway function and for the provider's \<^verbatim>\<open>createJob\<close> that wraps it. A
  request is issued only when all four fields are present, and then it is the one POST
  to \<^verbatim>\<open>/jobs\<close>.
\<close>

theorem createJob_validates_first:
  "(falsy (jd_title d) \<or> falsy (jd_description d) \<or> falsy (jd_category d) \<or> jd_budget d = None \<longrightarrow>
      fst (jobService_createJob w d net) = Inl (Error ''Datos incompletos para crear la propuesta'')
      \<and> requests (snd (jobService_createJob w d net)) = requests w
      \<and> requests (snd (createJob w cu d net netAll netUser)) = requests w)
   \<and> (requests (snd (jobService_createJob w d net)) \<noteq> requests w \<longrightarrow>
        \<not> falsy (jd_title d) \<and> \<not> falsy (jd_description d) \<and> \<not> falsy (jd_category d)
        \<and> jd_budget d \<noteq> None)
   \<and> (\<not> (falsy (jd_title d) \<or> falsy (jd_description d) \<or> falsy (jd_category d) \<or> jd_budget d = None) \<longrightarrow>
        requests (snd (jobService_createJob w d net))
          = requests w @ [Request POST ''/jobs'' (bearer (token w))])"
  by (auto simp: svc_defs createJob_def Let_def split: axios.splits body.splits sum.splits prod.splits)

text \<open>The scenario of the specification: title and description present, budget undefined.\<close>

theorem createJob_validates_first_witness:
  "jd_budget \<lparr>jd_title = Some ''Logo'', jd_description = Some ''Design a logo'',
              jd_category = Some ''design'', jd_budget = None, jd_status = None\<rparr> = None
   \<and> fst (jobService_createJob (initial None None False)
            \<lparr>jd_title = Some ''Logo'', jd_description = Some ''Design a logo'',
             jd_category = Some ''design'', jd_budget = None, jd_status = None\<rparr>
            (Responds (Success (sampleJob ''A'' ''u1'' None))))
       = Inl (Error ''Datos incompletos para crear la propuesta'')
   \<and> requests (snd (jobService_createJob (initial None None False)
            \<lparr>jd_title = Some ''Logo'', jd_description = Some ''Design a logo'',
             jd_category = Some ''design'', jd_budget = None, jd_status = None\<rparr>
            (Responds (Success (sampleJob ''A'' ''u1'' None))))) = []"
  using createJob_validates_first
    [of "\<lparr>jd_title = Some ''Logo'', jd_description = Some ''Design a logo'',
          jd_category = Some ''design'', jd_budget = None, jd_status = None\<rparr>"
        "initial None None False" "Responds (Success (sampleJob ''A'' ''u1'' None))"]
  by (simp add: initial_def)

subsection \<open>C8: reading falls back to the cached snapshot\<close>

text \<open>
  Claim C8. A fetch of the job list whose request throws, or is answered without
  success, resolves to the snapshot in the \<^verbatim>\<open>cachedJobs\<close> slot when there is one and to the
  empty list otherwise. A fetch answered with success resolves to the fetched jobs, each
  given a comment sequence, and writes them to the slot: when the store accepts the write
  the slot holds exactly them afterwards, so that a fetch failing next resolves to them.
\<close>

theorem getAllJobs_cache_fallback:
  "fst (jobService_getAllJobs w (Throws e))
     = Inr (case cachedJobs w of Some snapshot \<Rightarrow> snapshot | None \<Rightarrow> [])
   \<and> fst (jobService_getAllJobs w (Responds (NoSuccess m)))
     = Inr (case cachedJobs w of Some snapshot \<Rightarrow> snapshot | None \<Rightarrow> [])
   \<and> fst (jobService_getAllJobs w (Responds (Success js))) = Inr (map withComments js)
   \<and> (\<not> quotaExceeded w \<longrightarrow>
        cachedJobs (snd (jobService_getAllJobs w (Responds (Success js))))
          = Some (map withComments js))
   \<and> (\<not> quotaExceeded w \<longrightarrow>
        fst (jobService_getAllJobs (snd (jobService_getAllJobs w (Responds (Success js)))) (Throws e))
          = Inr (map withComments js))"
  by (simp add: svc_defs Let_def split: option.splits)

theorem getAllJobs_cache_fallback_witness:
  "\<not> quotaExceeded (initial None None False)
   \<and> fst (jobService_getAllJobs (initial None None False) (Throws offline)) = Inr []
   \<and> cachedJobs (snd (jobService_getAllJobs (initial None None False)
                        (Responds (Success [sampleJob ''A'' ''u1'' None]))))
       = Some [jobA]
   \<and> fst (jobService_getAllJobs
            (snd (jobService_getAllJobs (initial None None False)
                    (Responds (Success [sampleJob ''A'' ''u1'' None]))))
            (Throws offline))
       = Inr [jobA]"
  using getAllJobs_cache_fallback
    [of "initial None None False" offline None "[sampleJob ''A'' ''u1'' None]"]
  by (simp add: initial_def sampleJob_def withComments_def jobA_def)

subsection \<open>C9: temporary identifiers\<close>

text \<open>
  Claim C9 says that any two distinct synthesized entities have different temporary
  identifiers. The code at one input: two comments of Ana's on job A, with different
  texts, synthesized at the same reading 1700 of the clock, are different comments with
  one identifier.
\<close>

theorem same_millisecond_same_identifier:
  "tempComment ana ''A'' ''first'' 1700 1700 \<noteq> tempComment ana ''A'' ''second'' 1700 1700
   \<and> comment_id (tempComment ana ''A'' ''first'' 1700 1700)
     = comment_id (tempComment ana ''A'' ''second'' 1700 1700)"
  by (simp add: tempComment_def)

text \<open>
  Claim C9 as amended. The identifier of every temporary comment starts with \<^verbatim>\<open>temp-\<close> and
  that of every temporary reply with \<^verbatim>\<open>temp-reply-\<close>. Two temporary comments have the same
  identifier exactly when they were synthesized at the same reading of the millisecond
  clock, and so have two temporary replies; the identifier of a temporary comment is never
  that of a temporary reply.
\<close>

theorem temporary_identifiers:
  "prefix ''temp-'' (comment_id (tempComment u j t now ts))
   \<and> prefix ''temp-reply-'' (reply_id (tempReply u c t now ts))
   \<and> (comment_id (tempComment u j t now ts) = comment_id (tempComment u' j' t' now' ts')
        \<longleftrightarrow> now = now')
   \<and> (reply_id (tempReply u c t now ts) = reply_id (tempReply u' c' t' now' ts')
        \<longleftrightarrow> now = now')
   \<and> comment_id (tempComment u j t now ts) \<noteq> reply_id (tempReply u' c' t' now' ts')"
  using decimal_inj[of now now'] decimal_hd_not_r[of now]
  by (auto simp: tempComment_def tempReply_def)

theorem temporary_identifiers_witness:
  "comment_id (tempComment ana ''A'' ''hola'' 1700 1700) = ''temp-1700''
   \<and> comment_id (tempComment ana ''A'' ''hola'' 1700 1700)
     \<noteq> comment_id (tempComment ana ''B'' ''adios'' 1701 1701)
   \<and> comment_id (tempComment ana ''A'' ''hola'' 1700 1700)
     \<noteq> reply_id (tempReply ana ''c1'' ''adios'' 1701 1701)"
  using temporary_identifiers
    [of ana "''A''" "''hola''" 1700 1700 "''c1''" ana "''B''" "''adios''" 1701 1701 "''c1''"]
  by (simp add: tempComment_def decimal.simps digit_def)

subsection \<open>C10: the gateway never rejects a comment\<close>



end
